theory Spec2Isabelle
  imports Main "HOL-Library.Sublist"
begin

section \<open>Values, truthiness and text of the host language\<close>

text \<open>
  The script \<^verbatim>\<open>resolve_api.py\<close> receives arbitrary Python values from the
  scripting library of the video editor. The values that matter to it are the null
  value, booleans, integers, text, and opaque objects of the library (the handles of
  the application, of the project manager and of the project), named by a number.
\<close>

datatype pyval = PyNone | PyBool bool | PyInt int | PyStr string | PyObj nat

text \<open>
  What a statement can raise. \<open>Exception m\<close> is an instance of the class
  \<^verbatim>\<open>Exception\<close> (of any subclass: \<^verbatim>\<open>ImportError\<close>,
  \<^verbatim>\<open>AttributeError\<close>, ...) whose \<^verbatim>\<open>str()\<close> is \<open>m\<close>, and
  \<open>Exception_str_raises x\<close> an instance of \<^verbatim>\<open>Exception\<close> whose
  \<^verbatim>\<open>str()\<close> raises \<open>x\<close>. \<open>SystemExit n\<close> is the exit request that
  \<^verbatim>\<open>sys.exit(n)\<close> raises and \<open>KeyboardInterrupt\<close> the interrupt signal:
  both derive from \<^verbatim>\<open>BaseException\<close> only, so a handler for
  \<^verbatim>\<open>Exception\<close> lets them pass.
\<close>

datatype exc =
  Exception string
| Exception_str_raises exc
| SystemExit int
| KeyboardInterrupt


text \<open>
  The truth test of \<^verbatim>\<open>if x:\<close>. The null value, \<^verbatim>\<open>False\<close>, zero and
  the empty text are false; an object of a class that defines neither
  \<^verbatim>\<open>__bool__\<close> nor \<^verbatim>\<open>__len__\<close> is true. On these values the test
  itself raises nothing.
\<close>

fun truthy :: "pyval \<Rightarrow> bool" where
  "truthy PyNone = False"
| "truthy (PyBool b) = b"
| "truthy (PyInt i) = (i \<noteq> 0)"
| "truthy (PyStr s) = (s \<noteq> [])"
| "truthy (PyObj h) = True"

text \<open>The decimal digits of a natural number.\<close>

fun str_nat :: "nat \<Rightarrow> string" where
  "str_nat n = (if n < 10 then [''0123456789'' ! n]
                else str_nat (n div 10) @ [''0123456789'' ! (n mod 10)])"

declare str_nat.simps [simp del]

text \<open>
  \<^verbatim>\<open>str\<close> of an integer. The interpreter limits the number of digits of the
  conversion (\<^verbatim>\<open>sys.get_int_max_str_digits()\<close>, 4300 unless configured, 0 for
  no limit): an integer with more digits, the sign not counted, raises a
  \<^verbatim>\<open>ValueError\<close>.
\<close>

definition int_limit_message :: "nat \<Rightarrow> string" where
  "int_limit_message l =
     ''Exceeds the limit ('' @ str_nat l @
     '' digits) for integer string conversion; '' @
     ''use sys.set_int_max_str_digits() to increase the limit''"

definition str_int :: "nat \<Rightarrow> int \<Rightarrow> exc + string" where
  "str_int l i =
     (let digits = str_nat (nat \<bar>i\<bar>) in
      if 0 < l \<and> l < length digits then Inl (Exception (int_limit_message l))
      else Inr (if i < 0 then ''-'' @ digits else digits))"

section \<open>The world the script runs in\<close>

text \<open>
  Everything outside the script: the platform, what re-wrapping each standard stream
  does (lines 7 and 8; \<open>None\<close> is success), what lines 12 to 23 do (the module
  search path is extended and \<^verbatim>\<open>DaVinciResolveScript\<close> is imported; the path
  only matters through the import), what each lookup of the chain does on its
  receiver (it returns a value, \<open>Inr\<close>, or raises, \<open>Inl\<close>), what
  \<^verbatim>\<open>str\<close> does on an opaque object, the digit limit of the interpreter, and
  what standard output does with a text that is not plain ASCII (\<open>None\<close>: the text
  is written; \<open>Some x\<close>: encoding it raises \<open>x\<close> and nothing is written).
\<close>

record world =
  win32 :: bool
  wrap_stdout :: "exc option"
  wrap_stderr :: "exc option"
  import_DaVinciResolveScript :: "exc option"
  scriptapp :: "string \<Rightarrow> exc + pyval"
  GetProjectManager :: "pyval \<Rightarrow> exc + pyval"
  GetCurrentProject :: "pyval \<Rightarrow> exc + pyval"
  GetName :: "pyval \<Rightarrow> exc + pyval"
  obj_str :: "nat \<Rightarrow> exc + string"
  int_max_str_digits :: nat
  stdout_write :: "string \<Rightarrow> exc option"

text \<open>
  \<^verbatim>\<open>str(x)\<close>, which \<^verbatim>\<open>print\<close> applies to its argument. It can raise: on
  an integer beyond the digit limit, and on an object whose class says so.
\<close>

fun py_str :: "world \<Rightarrow> pyval \<Rightarrow> exc + string" where
  "py_str w PyNone = Inr ''None''"
| "py_str w (PyBool b) = Inr (if b then ''True'' else ''False'')"
| "py_str w (PyInt i) = str_int (int_max_str_digits w) i"
| "py_str w (PyStr s) = Inr s"
| "py_str w (PyObj h) = obj_str w h"

section \<open>The process\<close>

datatype step = Application | Manager | Project | Name

text \<open>
  The state of the running process: the texts written by \<^verbatim>\<open>print\<close>, in order,
  and the lookups of the chain made so far, each with what it did.
\<close>

record proc =
  printed :: "string list"
  lookups :: "(step \<times> (exc + pyval)) list"

definition proc0 :: proc where
  "proc0 = \<lparr>printed = [], lookups = []\<rparr>"

text \<open>
  \<^verbatim>\<open>print(t)\<close> hands one text to standard output, which encodes it. Every
  encoding of a standard stream encodes plain ASCII, so such a text is always written;
  for any other text the stream of the world decides, and when encoding raises, nothing
  of the text is written. The stream is taken at the level of text: the line break
  that ends a printed text is counted before any translation of line ends by the
  platform. Failures of the operating system below the stream are not modelled.
\<close>

definition is_ascii :: "char \<Rightarrow> bool" where
  "is_ascii c \<longleftrightarrow> (of_char c :: nat) < 128"

definition accepts :: "world \<Rightarrow> string \<Rightarrow> bool" where
  "accepts w t \<longleftrightarrow> list_all is_ascii t \<or> stdout_write w t = None"

definition py_print :: "world \<Rightarrow> string \<Rightarrow> proc \<Rightarrow> exc option \<times> proc" where
  "py_print w t s =
     (if list_all is_ascii t then (None, s\<lparr>printed := printed s @ [t]\<rparr>)
      else
        (case stdout_write w t of
           None \<Rightarrow> (None, s\<lparr>printed := printed s @ [t]\<rparr>)
         | Some x \<Rightarrow> (Some x, s)))"

definition looked :: "step \<Rightarrow> exc + pyval \<Rightarrow> proc \<Rightarrow> proc" where
  "looked k r s = s\<lparr>lookups := lookups s @ [(k, r)]\<rparr>"

definition sys_exit :: "int \<Rightarrow> proc \<Rightarrow> exc \<times> proc" where
  "sys_exit n s = (SystemExit n, s)"

text \<open>Lines 5 to 8: on Windows both streams are re-wrapped, outside the \<^verbatim>\<open>try\<close>.\<close>

definition startup :: "world \<Rightarrow> exc option" where
  "startup w =
     (if win32 w then
        (case wrap_stdout w of
           Some x \<Rightarrow> Some x
         | None \<Rightarrow> wrap_stderr w)
      else None)"

text \<open>
  Lines 32 and 33: the name is converted to text and printed, then the exit is
  requested. Either of the first two can raise.
\<close>

definition print_name :: "world \<Rightarrow> pyval \<Rightarrow> proc \<Rightarrow> exc \<times> proc" where
  "print_name w project_name s =
     (case py_str w project_name of
        Inl x \<Rightarrow> (x, s)
      | Inr t \<Rightarrow>
          (case py_print w t s of
             (Some x, s') \<Rightarrow> (x, s')
           | (None, s') \<Rightarrow> sys_exit 0 s'))"

text \<open>
  Lines 25 to 33: the nested tests. The result is \<open>Some x\<close> when the block is left by
  raising \<open>x\<close> (an exception of a lookup or of printing the name, or the exit
  request of line 33), and \<open>None\<close> when control falls through to line 35.
\<close>

definition chain :: "world \<Rightarrow> proc \<Rightarrow> exc option \<times> proc" where
  "chain w s =
     (case scriptapp w ''Resolve'' of
        Inl x \<Rightarrow> (Some x, looked Application (Inl x) s)
      | Inr resolve \<Rightarrow>
          let s1 = looked Application (Inr resolve) s in
          if truthy resolve then
            (case GetProjectManager w resolve of
               Inl x \<Rightarrow> (Some x, looked Manager (Inl x) s1)
             | Inr pm \<Rightarrow>
                 let s2 = looked Manager (Inr pm) s1 in
                 if truthy pm then
                   (case GetCurrentProject w pm of
                      Inl x \<Rightarrow> (Some x, looked Project (Inl x) s2)
                    | Inr project \<Rightarrow>
                        let s3 = looked Project (Inr project) s2 in
                        if truthy project then
                          (case GetName w project of
                             Inl x \<Rightarrow> (Some x, looked Name (Inl x) s3)
                           | Inr project_name \<Rightarrow>
                               let s4 = looked Name (Inr project_name) s3;
                                   (x, s5) = print_name w project_name s4
                               in (Some x, s5))
                        else (None, s3))
                 else (None, s2))
          else (None, s1))"

text \<open>Lines 11 to 36: the body of the \<^verbatim>\<open>try\<close>. It always ends by raising.\<close>

definition guarded :: "world \<Rightarrow> proc \<Rightarrow> exc \<times> proc" where
  "guarded w s =
     (case import_DaVinciResolveScript w of
        Some x \<Rightarrow> (x, s)
      | None \<Rightarrow>
          (case chain w s of
             (Some x, s') \<Rightarrow> (x, s')
           | (None, s') \<Rightarrow>
               (case py_print w ''NO_PROJECT'' s' of
                  (Some x, s'') \<Rightarrow> (x, s'')
                | (None, s'') \<Rightarrow> sys_exit 1 s'')))"

text \<open>
  Lines 37 to 39: \<^verbatim>\<open>except Exception as e\<close>. Only an instance of
  \<^verbatim>\<open>Exception\<close> enters the handler; anything else goes on unwinding. Line 38
  runs inside the handler, outside every \<^verbatim>\<open>try\<close>: what \<^verbatim>\<open>str(e)\<close> or
  \<^verbatim>\<open>print\<close> raises there leaves the script, with nothing printed.
\<close>

definition except_Exception :: "world \<Rightarrow> exc \<times> proc \<Rightarrow> exc \<times> proc" where
  "except_Exception w r =
     (case r of
        (Exception m, s) \<Rightarrow>
          (case py_print w (''ERROR:'' @ m) s of
             (Some x, s') \<Rightarrow> (x, s')
           | (None, s') \<Rightarrow> sys_exit 2 s')
      | (Exception_str_raises x, s) \<Rightarrow> (x, s)
      | (SystemExit n, s) \<Rightarrow> (SystemExit n, s)
      | (KeyboardInterrupt, s) \<Rightarrow> (KeyboardInterrupt, s))"

text \<open>
  How the process ends: the interpreter turns an exit request into the exit code, and
  reports anything else that reaches the top level as an unhandled exception.
\<close>

datatype ending = Exit int | Traceback exc

record run =
  out_texts :: "string list"
  made :: "(step \<times> (exc + pyval)) list"
  ending :: ending

definition interpreter :: "exc \<times> proc \<Rightarrow> run" where
  "interpreter r =
     (case r of (x, s) \<Rightarrow>
        \<lparr>out_texts = printed s, made = lookups s,
         ending = (case x of SystemExit n \<Rightarrow> Exit n | _ \<Rightarrow> Traceback x)\<rparr>)"

text \<open>The whole script.\<close>

definition main :: "world \<Rightarrow> run" where
  "main w =
     (case startup w of
        Some x \<Rightarrow> interpreter (x, proc0)
      | None \<Rightarrow> interpreter (except_Exception w (guarded w proc0)))"

text \<open>
  Standard output as text: \<^verbatim>\<open>print\<close> ends each text with one line break. The
  number of lines on the stream is the number of line breaks.
\<close>

definition newline :: char where
  "newline = CHR 0x0A"

definition stdout :: "run \<Rightarrow> string" where
  "stdout r = concat (map (\<lambda>t. t @ [newline]) (out_texts r))"


section \<open>Vocabulary of the properties\<close>



text \<open>A lookup found something: it returned, and the value passes the truth test.\<close>

fun present :: "exc + pyval \<Rightarrow> bool" where
  "present (Inr v) = truthy v"
| "present (Inl x) = False"

section \<open>Some worlds\<close>

text \<open>
  The editor runs and has the project \<open>MyProject\<close> open; standard output encodes
  every text.
\<close>

definition w_found :: world where
  "w_found =
     \<lparr>win32 = False, wrap_stdout = None, wrap_stderr = None,
      import_DaVinciResolveScript = None,
      scriptapp = (\<lambda>a. Inr (PyObj 1)),
      GetProjectManager = (\<lambda>v. Inr (PyObj 2)),
      GetCurrentProject = (\<lambda>v. Inr (PyObj 3)),
      GetName = (\<lambda>v. Inr (PyStr ''MyProject'')),
      obj_str = (\<lambda>h. Inr ''<PyRemoteObject>''),
      int_max_str_digits = 4300,
      stdout_write = (\<lambda>t. None)\<rparr>"

text \<open>The open project has the empty name.\<close>

definition w_empty_name :: world where
  "w_empty_name = w_found\<lparr>GetName := (\<lambda>v. Inr (PyStr []))\<rparr>"

text \<open>The name lookup returns the null value.\<close>

definition w_null_name :: world where
  "w_null_name = w_found\<lparr>GetName := (\<lambda>v. Inr PyNone)\<rparr>"

text \<open>The name lookup raises an exception whose text is \<open>timeout\<close>.\<close>

definition w_timeout :: world where
  "w_timeout = w_found\<lparr>GetName := (\<lambda>v. Inl (Exception ''timeout''))\<rparr>"

text \<open>The application lookup raises an exception whose text has two lines.\<close>

definition w_two_line_message :: world where
  "w_two_line_message =
     w_found\<lparr>scriptapp := (\<lambda>a. Inl (Exception (''a'' @ [newline] @ ''b'')))\<rparr>"

text \<open>The module of the editor is not installed.\<close>

definition w_no_module :: world where
  "w_no_module =
     w_found\<lparr>import_DaVinciResolveScript :=
       Some (Exception ''Could not locate module dependencies'')\<rparr>"

text \<open>The editor is not running: the application lookup returns the null value.\<close>

definition w_not_running :: world where
  "w_not_running = w_found\<lparr>scriptapp := (\<lambda>a. Inr PyNone)\<rparr>"

text \<open>No manager, and no project open: the lookup returns the null value.\<close>

definition w_null_manager :: world where
  "w_null_manager = w_found\<lparr>GetProjectManager := (\<lambda>v. Inr PyNone)\<rparr>"

definition w_null_project :: world where
  "w_null_project = w_found\<lparr>GetCurrentProject := (\<lambda>v. Inr PyNone)\<rparr>"

text \<open>Falsy values that are not the null value, one at each tested step.\<close>

definition w_false_application :: world where
  "w_false_application = w_found\<lparr>scriptapp := (\<lambda>a. Inr (PyBool False))\<rparr>"

definition w_zero_manager :: world where
  "w_zero_manager = w_found\<lparr>GetProjectManager := (\<lambda>v. Inr (PyInt 0))\<rparr>"

definition w_empty_project :: world where
  "w_empty_project = w_found\<lparr>GetCurrentProject := (\<lambda>v. Inr (PyStr []))\<rparr>"

text \<open>
  Windows, started without a console: \<^verbatim>\<open>sys.stdout\<close> is the null value, and
  line 7 raises an \<^verbatim>\<open>AttributeError\<close>.
\<close>

definition w_no_console :: world where
  "w_no_console =
     w_found\<lparr>win32 := True,
       wrap_stdout := Some (Exception ''NoneType object has no attribute buffer'')\<rparr>"

text \<open>Windows with a console: both streams are re-wrapped.\<close>

definition w_windows :: world where
  "w_windows = w_found\<lparr>win32 := True\<rparr>"

text \<open>
  A standard output that encodes plain ASCII only: on any other text it raises a
  \<^verbatim>\<open>UnicodeEncodeError\<close>, whose own text is plain ASCII.
\<close>

definition ascii_stream :: "string \<Rightarrow> exc option" where
  "ascii_stream t = Some (Exception ''ascii codec cannot encode character'')"

text \<open>On that stream, the name of the project has a letter beyond ASCII.\<close>

definition w_accented_name :: world where
  "w_accented_name =
     w_found\<lparr>GetName := (\<lambda>v. Inr (PyStr (''Caf'' @ [CHR 0xE9]))),
       stdout_write := ascii_stream\<rparr>"

text \<open>On that stream, the import raises an error whose text has such a letter.\<close>

definition w_accented_import_error :: world where
  "w_accented_import_error =
     w_found\<lparr>import_DaVinciResolveScript :=
         Some (Exception (''module introuvable: Caf'' @ [CHR 0xE9])),
       stdout_write := ascii_stream\<rparr>"

text \<open>On that stream, the name lookup raises an error whose text has such a letter.\<close>

definition w_accented_lookup_error :: world where
  "w_accented_lookup_error =
     w_found\<lparr>GetName := (\<lambda>v. Inl (Exception (''projet introuvable: Caf'' @ [CHR 0xE9]))),
       stdout_write := ascii_stream\<rparr>"

text \<open>The name lookup is interrupted from the keyboard.\<close>

definition w_interrupted :: world where
  "w_interrupted = w_found\<lparr>GetName := (\<lambda>v. Inl KeyboardInterrupt)\<rparr>"

section \<open>Auxiliary facts\<close>

lemmas script_defs =
  main_def guarded_def chain_def print_name_def except_Exception_def interpreter_def
  sys_exit_def py_print_def looked_def proc0_def

lemmas world_defs =
  w_found_def w_empty_name_def w_null_name_def w_timeout_def w_two_line_message_def
  w_no_module_def w_not_running_def w_null_manager_def w_null_project_def
  w_false_application_def w_zero_manager_def w_empty_project_def w_no_console_def
  w_windows_def w_accented_name_def w_accented_import_error_def
  w_accented_lookup_error_def w_interrupted_def ascii_stream_def



lemma py_print_accepted:
  "accepts w t \<Longrightarrow> py_print w t s = (None, s\<lparr>printed := printed s @ [t]\<rparr>)"
  by (auto simp: py_print_def accepts_def)



lemma digit_ascii: "k < 10 \<Longrightarrow> is_ascii (''0123456789'' ! k)"
proof -
  assume "k < 10"
  then have "''0123456789'' ! k \<in> set ''0123456789''"
    by (intro nth_mem) simp
  moreover have "list_all is_ascii ''0123456789''"
    by (simp add: is_ascii_def)
  ultimately show ?thesis
    by (simp only: list_all_iff)
qed

lemma str_nat_ascii: "list_all is_ascii (str_nat n)"
proof (induction n rule: str_nat.induct)
  case (1 n)
  show ?case
  proof (cases "n < 10")
    case True
    then show ?thesis
      by (subst str_nat.simps) (simp add: digit_ascii)
  next
    case False
    with "1" have "list_all is_ascii (str_nat (n div 10))"
      by simp
    with False show ?thesis
      by (subst str_nat.simps) (simp add: digit_ascii)
  qed
qed

lemma int_limit_message_ascii: "list_all is_ascii (''ERROR:'' @ int_limit_message l)"
proof -
  have "list_all is_ascii ''ERROR:Exceeds the limit (''"
    by (simp add: is_ascii_def)
  moreover have "list_all is_ascii '' digits) for integer string conversion; ''"
    by (simp add: is_ascii_def)
  moreover have "list_all is_ascii ''use sys.set_int_max_str_digits() to increase the limit''"
    by (simp add: is_ascii_def)
  ultimately show ?thesis
    using str_nat_ascii [of l] by (simp add: int_limit_message_def)
qed




lemma handler_reports:
  "accepts w (''ERROR:'' @ m) \<Longrightarrow>
   interpreter (except_Exception w (Exception m, s)) =
     \<lparr>out_texts = printed s @ [''ERROR:'' @ m], made = lookups s, ending = Exit 2\<rparr>"
  by (simp add: except_Exception_def interpreter_def sys_exit_def py_print_accepted)

lemma startup_found [simp]: "startup w_found = None"
  by (simp add: startup_def w_found_def)



lemma no_project_printed:
  "py_print w ''NO_PROJECT'' s = (None, s\<lparr>printed := printed s @ [''NO_PROJECT'']\<rparr>)"
  by (simp add: py_print_def is_ascii_def)




lemma py_print_lookups: "lookups (snd (py_print w t s)) = lookups s"
  by (simp add: py_print_def split: option.splits)

lemma print_name_lookups: "lookups (snd (print_name w v s)) = lookups s"
proof (cases "py_str w v")
  case (Inl x)
  then show ?thesis
    by (simp add: print_name_def)
next
  case (Inr t)
  obtain r s' where p: "py_print w t s = (r, s')"
    by (cases "py_print w t s")
  with py_print_lookups [of w t s] have "lookups s' = lookups s"
    by simp
  with Inr p show ?thesis
    by (cases r) (simp_all add: print_name_def sys_exit_def)
qed

lemma chain_lookups:
  "prefix (map fst (lookups (snd (chain w proc0)))) [Application, Manager, Project, Name] \<and>
   list_all (\<lambda>c. present (snd c)) (butlast (lookups (snd (chain w proc0))))"
  by (simp add: chain_def Let_def split_beta looked_def proc0_def print_name_lookups
        split: sum.splits)

lemma except_Exception_lookups: "lookups (snd (except_Exception w r)) = lookups (snd r)"
proof -
  obtain x s where r: "r = (x, s)"
    by (cases r)
  show ?thesis
  proof (cases x)
    case (Exception m)
    obtain q s' where p: "py_print w (''ERROR:'' @ m) s = (q, s')"
      by (cases "py_print w (''ERROR:'' @ m) s")
    with py_print_lookups [of w "''ERROR:'' @ m" s] have "lookups s' = lookups s"
      by simp
    with r Exception p show ?thesis
      by (cases q) (simp_all add: except_Exception_def sys_exit_def)
  qed (simp_all add: r except_Exception_def)
qed

lemma guarded_lookups:
  "lookups (snd (guarded w proc0)) =
     (case import_DaVinciResolveScript w of
        Some x \<Rightarrow> []
      | None \<Rightarrow> lookups (snd (chain w proc0)))"
proof (cases "import_DaVinciResolveScript w")
  case (Some x)
  then show ?thesis
    by (simp add: guarded_def proc0_def)
next
  case None
  obtain r s where c: "chain w proc0 = (r, s)"
    by (cases "chain w proc0")
  with None show ?thesis
    by (cases r) (simp_all add: guarded_def no_project_printed sys_exit_def)
qed

lemma made_main:
  "made (main w) =
     (case startup w of
        Some x \<Rightarrow> []
      | None \<Rightarrow> lookups (snd (guarded w proc0)))"
  by (simp add: main_def interpreter_def split_beta except_Exception_lookups proc0_def
        split: option.splits)

section \<open>One outcome per run\<close>




section \<open>Null handles and the name\<close>

text \<open>
  Claim C2, as stated: at every step of manager, project and name a null value gives
  \<open>NO_PROJECT\<close> and exit code 1, also at the name lookup. The script tests the
  manager and the project, and prints the name untested: a null name is printed as the
  text \<open>None\<close>, with exit code 0.
\<close>

theorem null_name_is_printed:
  "out_texts (main w_null_name) = [''None''] \<and>
   stdout (main w_null_name) = ''None'' @ [newline] \<and>
   ending (main w_null_name) = Exit 0"
  by (simp add: script_defs world_defs startup_def stdout_def is_ascii_def)

text \<open>
  Claim C2, amended: with the application handle present, a null manager and a null
  project each give \<open>NO_PROJECT\<close> and exit code 1; the result of the name lookup
  is not tested, and a null name is printed as the text \<open>None\<close> with exit code 0.
\<close>

theorem null_handle_short_circuits:
  assumes "startup w = None" and "import_DaVinciResolveScript w = None"
    and "scriptapp w ''Resolve'' = Inr resolve" and "truthy resolve"
  shows
    "(GetProjectManager w resolve = Inr PyNone \<longrightarrow>
        stdout (main w) = ''NO_PROJECT'' @ [newline] \<and> ending (main w) = Exit 1) \<and>
     (\<forall>pm. GetProjectManager w resolve = Inr pm \<and> truthy pm \<and>
           GetCurrentProject w pm = Inr PyNone \<longrightarrow>
        stdout (main w) = ''NO_PROJECT'' @ [newline] \<and> ending (main w) = Exit 1) \<and>
     (\<forall>pm project. GetProjectManager w resolve = Inr pm \<and> truthy pm \<and>
           GetCurrentProject w pm = Inr project \<and> truthy project \<and>
           GetName w project = Inr PyNone \<longrightarrow>
        stdout (main w) = ''None'' @ [newline] \<and> ending (main w) = Exit 0)"
  using assms by (simp add: script_defs stdout_def is_ascii_def)

theorem null_handle_short_circuits_witness:
  "(stdout (main w_null_manager) = ''NO_PROJECT'' @ [newline] \<and>
    ending (main w_null_manager) = Exit 1) \<and>
   (stdout (main w_null_project) = ''NO_PROJECT'' @ [newline] \<and>
    ending (main w_null_project) = Exit 1) \<and>
   (stdout (main w_null_name) = ''None'' @ [newline] \<and>
    ending (main w_null_name) = Exit 0)"
proof -
  have m: "startup w_null_manager = None"
    "import_DaVinciResolveScript w_null_manager = None"
    "scriptapp w_null_manager ''Resolve'' = Inr (PyObj 1)" "truthy (PyObj 1)"
    "GetProjectManager w_null_manager (PyObj 1) = Inr PyNone"
    by (simp_all add: world_defs startup_def)
  have p: "startup w_null_project = None"
    "import_DaVinciResolveScript w_null_project = None"
    "scriptapp w_null_project ''Resolve'' = Inr (PyObj 1)"
    "GetProjectManager w_null_project (PyObj 1) = Inr (PyObj 2)" "truthy (PyObj 2)"
    "GetCurrentProject w_null_project (PyObj 2) = Inr PyNone"
    by (simp_all add: world_defs startup_def)
  have n: "startup w_null_name = None"
    "import_DaVinciResolveScript w_null_name = None"
    "scriptapp w_null_name ''Resolve'' = Inr (PyObj 1)"
    "GetProjectManager w_null_name (PyObj 1) = Inr (PyObj 2)"
    "GetCurrentProject w_null_name (PyObj 2) = Inr (PyObj 3)" "truthy (PyObj 3)"
    "GetName w_null_name (PyObj 3) = Inr PyNone"
    by (simp_all add: world_defs startup_def)
  from null_handle_short_circuits [OF m(1-4)] m(5)
  have 1: "stdout (main w_null_manager) = ''NO_PROJECT'' @ [newline] \<and>
           ending (main w_null_manager) = Exit 1"
    by blast
  from null_handle_short_circuits [OF p(1-3) m(4)] p(4-6)
  have 2: "stdout (main w_null_project) = ''NO_PROJECT'' @ [newline] \<and>
           ending (main w_null_project) = Exit 1"
    by blast
  from null_handle_short_circuits [OF n(1-3) m(4)] n(4-7) p(5)
  have 3: "stdout (main w_null_name) = ''None'' @ [newline] \<and>
           ending (main w_null_name) = Exit 0"
    by blast
  from 1 2 3 show ?thesis
    by blast
qed

section \<open>The name found\<close>




text \<open>
  Line 32 fails in the same way on a name that is an integer beyond the digit limit
  of the interpreter, under the default limit \<open>10 ^ 4300\<close> and beyond:
  \<^verbatim>\<open>str\<close> raises a \<^verbatim>\<open>ValueError\<close> inside the guarded region, and the
  handler reports it.
\<close>

lemma str_nat_length: "10 ^ l \<le> n \<Longrightarrow> l < length (str_nat n)"
proof (induction l arbitrary: n)
  case 0
  show ?case
    by (subst str_nat.simps) simp
next
  case (Suc l)
  then have "10 ^ l \<le> n div 10"
    by simp
  then have "l < length (str_nat (n div 10))"
    by (rule Suc.IH)
  moreover have "(10::nat) \<le> 10 ^ Suc l"
    by simp
  with Suc.prems have "\<not> n < 10"
    by (meson leD order_trans)
  ultimately show ?case
    by (subst str_nat.simps) simp
qed

lemma str_int_beyond_limit:
  assumes "0 < l" and "10 ^ l \<le> \<bar>i\<bar>"
  shows "str_int l i = Inl (Exception (int_limit_message l))"
proof -
  from assms(2) have "10 ^ l \<le> nat \<bar>i\<bar>"
    by (metis nat_mono nat_numeral nat_power_eq zero_le_numeral)
  then have "l < length (str_nat (nat \<bar>i\<bar>))"
    by (rule str_nat_length)
  with assms(1) show ?thesis
    by (simp add: str_int_def)
qed

lemma integer_name_beyond_limit_reports_error:
  assumes "startup w = None" and "import_DaVinciResolveScript w = None"
    and "scriptapp w ''Resolve'' = Inr resolve" and "truthy resolve"
    and "GetProjectManager w resolve = Inr pm" and "truthy pm"
    and "GetCurrentProject w pm = Inr project" and "truthy project"
    and "GetName w project = Inr (PyInt i)"
    and "0 < int_max_str_digits w" and "10 ^ int_max_str_digits w \<le> \<bar>i\<bar>"
  shows "out_texts (main w) = [''ERROR:'' @ int_limit_message (int_max_str_digits w)] \<and>
         ending (main w) = Exit 2"
proof -
  have a: "accepts w (''ERROR:'' @ int_limit_message (int_max_str_digits w))"
    using int_limit_message_ascii [of "int_max_str_digits w"] by (simp add: accepts_def)
  from assms have "guarded w proc0 =
      (Exception (int_limit_message (int_max_str_digits w)),
       \<lparr>printed = [],
        lookups = [(Application, Inr resolve), (Manager, Inr pm), (Project, Inr project),
                   (Name, Inr (PyInt i))]\<rparr>)"
    by (simp add: guarded_def chain_def print_name_def looked_def proc0_def
          str_int_beyond_limit)
  with assms(1) handler_reports [OF a] show ?thesis
    by (simp add: main_def)
qed

section \<open>Exceptions and the boundary\<close>







text \<open>
  Claim C6: when the surface is acquired and the application lookup returns the null
  value, the script prints \<open>NO_PROJECT\<close> and the exit code is 1, not 2; only the
  application lookup is made.
\<close>

theorem null_application_not_found:
  assumes "startup w = None" and "import_DaVinciResolveScript w = None"
    and "scriptapp w ''Resolve'' = Inr PyNone"
  shows "out_texts (main w) = [''NO_PROJECT''] \<and>
         stdout (main w) = ''NO_PROJECT'' @ [newline] \<and>
         ending (main w) = Exit 1 \<and> ending (main w) \<noteq> Exit 2 \<and>
         made (main w) = [(Application, Inr PyNone)]"
  using assms by (simp add: script_defs stdout_def is_ascii_def)

theorem null_application_not_found_witness:
  "startup w_not_running = None \<and> import_DaVinciResolveScript w_not_running = None \<and>
   scriptapp w_not_running ''Resolve'' = Inr PyNone \<and>
   stdout (main w_not_running) = ''NO_PROJECT'' @ [newline] \<and>
   ending (main w_not_running) = Exit 1"
proof -
  have h: "startup w_not_running = None" "import_DaVinciResolveScript w_not_running = None"
    "scriptapp w_not_running ''Resolve'' = Inr PyNone"
    by (simp_all add: world_defs startup_def)
  from h null_application_not_found [OF h] show ?thesis
    by simp
qed




section \<open>The order of the lookups\<close>

text \<open>
  Claim C8: the lookups are made in the order application, manager, project, name,
  each at most once, and every lookup that was followed by another one had returned a
  value that passes the truth test: after a lookup that signalled absence or raised,
  no later lookup is made.
\<close>

theorem lookups_sequential:
  "prefix (map fst (made (main w))) [Application, Manager, Project, Name] \<and>
   list_all (\<lambda>c. present (snd c)) (butlast (made (main w)))"
  using chain_lookups [of w]
  by (simp add: made_main guarded_lookups split: option.splits)

theorem lookups_sequential_witness:
  "made (main w_null_project) =
     [(Application, Inr (PyObj 1)), (Manager, Inr (PyObj 2)), (Project, Inr PyNone)] \<and>
   prefix (map fst (made (main w_null_project))) [Application, Manager, Project, Name] \<and>
   list_all (\<lambda>c. present (snd c)) (butlast (made (main w_null_project)))"
proof -
  have "made (main w_null_project) =
     [(Application, Inr (PyObj 1)), (Manager, Inr (PyObj 2)), (Project, Inr PyNone)]"
    by (simp add: script_defs world_defs startup_def is_ascii_def)
  with lookups_sequential [of w_null_project] show ?thesis
    by blast
qed

section \<open>Falsy handles\<close>

text \<open>
  Claim C9: the application, the manager and the project are tested for truth, not
  for being null. When the surface is acquired and one of these three lookups returns
  a value that fails the truth test (null, \<^verbatim>\<open>False\<close>, zero, the empty text),
  the script prints \<open>NO_PROJECT\<close>, the exit code is 1, and the lookups after it
  are not made.
\<close>

theorem falsy_handle_not_found:
  assumes "startup w = None" and "import_DaVinciResolveScript w = None"
  shows
    "(\<forall>resolve. scriptapp w ''Resolve'' = Inr resolve \<and> \<not> truthy resolve \<longrightarrow>
        stdout (main w) = ''NO_PROJECT'' @ [newline] \<and> ending (main w) = Exit 1 \<and>
        map fst (made (main w)) = [Application]) \<and>
     (\<forall>resolve pm. scriptapp w ''Resolve'' = Inr resolve \<and> truthy resolve \<and>
        GetProjectManager w resolve = Inr pm \<and> \<not> truthy pm \<longrightarrow>
        stdout (main w) = ''NO_PROJECT'' @ [newline] \<and> ending (main w) = Exit 1 \<and>
        map fst (made (main w)) = [Application, Manager]) \<and>
     (\<forall>resolve pm project. scriptapp w ''Resolve'' = Inr resolve \<and> truthy resolve \<and>
        GetProjectManager w resolve = Inr pm \<and> truthy pm \<and>
        GetCurrentProject w pm = Inr project \<and> \<not> truthy project \<longrightarrow>
        stdout (main w) = ''NO_PROJECT'' @ [newline] \<and> ending (main w) = Exit 1 \<and>
        map fst (made (main w)) = [Application, Manager, Project])"
  using assms by (simp add: script_defs stdout_def is_ascii_def)

theorem falsy_handle_not_found_witness:
  "(stdout (main w_false_application) = ''NO_PROJECT'' @ [newline] \<and>
    ending (main w_false_application) = Exit 1 \<and>
    map fst (made (main w_false_application)) = [Application]) \<and>
   (stdout (main w_zero_manager) = ''NO_PROJECT'' @ [newline] \<and>
    ending (main w_zero_manager) = Exit 1 \<and>
    map fst (made (main w_zero_manager)) = [Application, Manager]) \<and>
   (stdout (main w_empty_project) = ''NO_PROJECT'' @ [newline] \<and>
    ending (main w_empty_project) = Exit 1 \<and>
    map fst (made (main w_empty_project)) = [Application, Manager, Project])"
proof -
  have t: "truthy (PyObj 1)" "truthy (PyObj 2)"
    "\<not> truthy (PyBool False)" "\<not> truthy (PyInt 0)" "\<not> truthy (PyStr [])"
    by simp_all
  have a: "startup w_false_application = None"
    "import_DaVinciResolveScript w_false_application = None"
    "scriptapp w_false_application ''Resolve'' = Inr (PyBool False)"
    by (simp_all add: world_defs startup_def)
  have m: "startup w_zero_manager = None"
    "import_DaVinciResolveScript w_zero_manager = None"
    "scriptapp w_zero_manager ''Resolve'' = Inr (PyObj 1)"
    "GetProjectManager w_zero_manager (PyObj 1) = Inr (PyInt 0)"
    by (simp_all add: world_defs startup_def)
  have p: "startup w_empty_project = None"
    "import_DaVinciResolveScript w_empty_project = None"
    "scriptapp w_empty_project ''Resolve'' = Inr (PyObj 1)"
    "GetProjectManager w_empty_project (PyObj 1) = Inr (PyObj 2)"
    "GetCurrentProject w_empty_project (PyObj 2) = Inr (PyStr [])"
    by (simp_all add: world_defs startup_def)
  from falsy_handle_not_found [OF a(1,2)] a(3) t(3)
  have 1: "stdout (main w_false_application) = ''NO_PROJECT'' @ [newline] \<and>
           ending (main w_false_application) = Exit 1 \<and>
           map fst (made (main w_false_application)) = [Application]"
    by blast
  from falsy_handle_not_found [OF m(1,2)] m(3,4) t(1,4)
  have 2: "stdout (main w_zero_manager) = ''NO_PROJECT'' @ [newline] \<and>
           ending (main w_zero_manager) = Exit 1 \<and>
           map fst (made (main w_zero_manager)) = [Application, Manager]"
    by blast
  from falsy_handle_not_found [OF p(1,2)] p(3-5) t(1,2,5)
  have 3: "stdout (main w_empty_project) = ''NO_PROJECT'' @ [newline] \<and>
           ending (main w_empty_project) = Exit 1 \<and>
           map fst (made (main w_empty_project)) = [Application, Manager, Project]"
    by blast
  from 1 2 3 show ?thesis
    by blast
qed

section \<open>The exit request and the handler\<close>



end
